theory Spec2Isabelle
  imports Complex_Main "HOL-Library.Log_Nat"
begin

section \<open>The widget toolkit of castello-rev-ui.js\<close>

text \<open>
  The toolkit is the JavaScript of \<^verbatim>\<open>src/ui/js/castello-rev-ui.js\<close>: the classes
  \<^verbatim>\<open>Widget\<close>, \<^verbatim>\<open>TouchAndMouseControllableWidget\<close>, \<^verbatim>\<open>InputWidget\<close>,
  \<^verbatim>\<open>RangeInputWidget\<close>, \<^verbatim>\<open>ResizeHandle\<close> and \<^verbatim>\<open>Knob\<close>. Each method becomes a
  function that takes the object's state and returns the new one, under its own name
  without the leading underscore, and with its class in front (\<open>Class_method\<close>) where
  several classes define it. A call that JavaScript dispatches on the object
  (\<^verbatim>\<open>this._instanceInit()\<close>, \<^verbatim>\<open>this._onSetValue(v)\<close>, the three gesture hooks) is a
  function that selects on the class of the object.

  Numbers. A JavaScript number is an IEEE double. Two parts of the toolkit are followed
  in doubles, with rounding, the infinities and NaN (type \<open>num\<close> below): the round trip
  \<^verbatim>\<open>_normalize\<close>/\<^verbatim>\<open>_denormalize\<close> and the sizes of the resize handle, whose properties
  depend on the rounding. The knob's gesture and \<^verbatim>\<open>_range\<close>/\<^verbatim>\<open>_clamp\<close> as the gesture
  uses them are followed over the type \<^typ>\<open>real\<close>; there, where the script would produce a
  NaN or an infinity (a quotient by zero, arithmetic on \<^verbatim>\<open>undefined\<close>) the functions stop
  with \<open>NotFinite\<close> instead of going on with a number that the reals do not have.

  Exceptions. The only exceptions of the toolkit are TypeErrors: the one
  \<^verbatim>\<open>_unqualifiedNodeName\<close> throws, and the ones the engine throws when a property of
  \<^verbatim>\<open>undefined\<close> is read or written (\<^verbatim>\<open>this._opt.minValue\<close> with no option bag,
  \<^verbatim>\<open>this.children[0].innerText\<close> with no child). \<open>DOMException\<close> is what the browser's
  own registry may throw. An exception leaves the object as the statements before it made
  it, so a stopped call still carries a state.
\<close>

datatype stop = TypeError string | DOMException string | NotFinite

datatype 'a result = Ok 'a | Stop stop 'a

fun state_of :: "'a result \<Rightarrow> 'a" where
  "state_of (Ok a) = a"
| "state_of (Stop s a) = a"

fun and_then :: "'a result \<Rightarrow> ('a \<Rightarrow> 'a result) \<Rightarrow> 'a result" where
  "and_then (Ok a) f = f a"
| "and_then (Stop s a) f = Stop s a"

subsection \<open>Doubles\<close>

text \<open>
  Rounding to the nearest double, ties to even. \<open>expo x\<close> is the binary exponent of
  \<open>x \<noteq> 0\<close> (\<open>2 powi expo x \<le> \<bar>x\<bar> < 2 powi (expo x + 1)\<close>); a double has 53 significant
  bits, and below the exponent \<open>-1022\<close> the spacing stays \<open>2 powi (-1074)\<close>. \<open>fl\<close> rounds
  as if the exponent had no upper limit; \<open>to_num\<close> turns a result beyond the largest
  double into an infinity.
\<close>

definition round_even :: "real \<Rightarrow> int" where
  "round_even y =
     (let n = \<lfloor>y\<rfloor>; d = y - of_int n
      in if d < 1 / 2 then n else if 1 / 2 < d then n + 1 else if even n then n else n + 1)"

definition expo :: "real \<Rightarrow> int" where
  "expo x = (if 1 \<le> \<bar>x\<bar> then bitlen \<lfloor>\<bar>x\<bar>\<rfloor> - 1 else - bitlen (\<lceil>1 / \<bar>x\<bar>\<rceil> - 1))"

definition fl :: "real \<Rightarrow> real" where
  "fl x =
     (if x = 0 then 0
      else (let q = 2 powi (max (expo x) (- 1022) - 52)
            in of_int (round_even (x / q)) * q))"

text \<open>
  A JavaScript number: a finite double, an infinity or NaN. (The sign of a zero is not
  kept; it shows only when a zero divides.)
\<close>

datatype num = Fin real | PInf | NInf | NaN

definition to_num :: "real \<Rightarrow> num" where
  "to_num z =
     (let r = fl z
      in if of_int (2 ^ 1024) \<le> r then PInf
         else if r \<le> - of_int (2 ^ 1024) then NInf
         else Fin r)"

fun neg_n :: "num \<Rightarrow> num" where
  "neg_n (Fin a) = Fin (- a)"
| "neg_n PInf = NInf"
| "neg_n NInf = PInf"
| "neg_n NaN = NaN"

fun add_n :: "num \<Rightarrow> num \<Rightarrow> num" where
  "add_n (Fin a) (Fin b) = to_num (a + b)"
| "add_n NaN _ = NaN"
| "add_n _ NaN = NaN"
| "add_n PInf NInf = NaN"
| "add_n NInf PInf = NaN"
| "add_n PInf _ = PInf"
| "add_n _ PInf = PInf"
| "add_n NInf _ = NInf"
| "add_n _ NInf = NInf"

definition sub_n :: "num \<Rightarrow> num \<Rightarrow> num" where
  "sub_n x y = add_n x (neg_n y)"

fun mul_n :: "num \<Rightarrow> num \<Rightarrow> num" where
  "mul_n (Fin a) (Fin b) = to_num (a * b)"
| "mul_n NaN _ = NaN"
| "mul_n _ NaN = NaN"
| "mul_n (Fin a) PInf = (if a = 0 then NaN else if 0 < a then PInf else NInf)"
| "mul_n (Fin a) NInf = (if a = 0 then NaN else if 0 < a then NInf else PInf)"
| "mul_n PInf (Fin b) = (if b = 0 then NaN else if 0 < b then PInf else NInf)"
| "mul_n NInf (Fin b) = (if b = 0 then NaN else if 0 < b then NInf else PInf)"
| "mul_n PInf PInf = PInf"
| "mul_n NInf NInf = PInf"
| "mul_n PInf NInf = NInf"
| "mul_n NInf PInf = NInf"

fun div_n :: "num \<Rightarrow> num \<Rightarrow> num" where
  "div_n (Fin a) (Fin b) =
     (if b = 0 then (if a = 0 then NaN else if 0 < a then PInf else NInf)
      else to_num (a / b))"
| "div_n NaN _ = NaN"
| "div_n _ NaN = NaN"
| "div_n (Fin a) _ = Fin 0"
| "div_n PInf (Fin b) = (if 0 \<le> b then PInf else NInf)"
| "div_n NInf (Fin b) = (if 0 \<le> b then NInf else PInf)"
| "div_n _ _ = NaN"

text \<open>\<^verbatim>\<open>Math.max\<close> and \<^verbatim>\<open>Math.min\<close>: NaN when an argument is NaN.\<close>

fun max_n :: "num \<Rightarrow> num \<Rightarrow> num" where
  "max_n NaN _ = NaN"
| "max_n _ NaN = NaN"
| "max_n PInf _ = PInf"
| "max_n _ PInf = PInf"
| "max_n NInf y = y"
| "max_n x NInf = x"
| "max_n (Fin a) (Fin b) = Fin (max a b)"

fun min_n :: "num \<Rightarrow> num \<Rightarrow> num" where
  "min_n NaN _ = NaN"
| "min_n _ NaN = NaN"
| "min_n NInf _ = NInf"
| "min_n _ NInf = NInf"
| "min_n PInf y = y"
| "min_n x PInf = x"
| "min_n (Fin a) (Fin b) = Fin (min a b)"

text \<open>\<^verbatim>\<open>a != b\<close> on numbers (NaN differs from everything), and the truth of a number.\<close>

definition ne_n :: "num \<Rightarrow> num \<Rightarrow> bool" where
  "ne_n x y = (x = NaN \<or> y = NaN \<or> x \<noteq> y)"

fun truthy_n :: "num \<Rightarrow> bool" where
  "truthy_n (Fin a) = (a \<noteq> 0)"
| "truthy_n NaN = False"
| "truthy_n _ = True"

text \<open>An option key read as a number: \<^verbatim>\<open>undefined\<close> becomes NaN in arithmetic.\<close>

fun opt_num :: "num option \<Rightarrow> num" where
  "opt_num None = NaN"
| "opt_num (Some n) = n"

fun real_opt_num :: "real option \<Rightarrow> num" where
  "real_opt_num None = NaN"
| "real_opt_num (Some x) = Fin x"

text \<open>\<^verbatim>\<open>x || d\<close> for a key \<open>x\<close> that holds a number or nothing.\<close>

fun or_default_n :: "num option \<Rightarrow> num \<Rightarrow> num" where
  "or_default_n None d = d"
| "or_default_n (Some x) d = (if truthy_n x then x else d)"

subsection \<open>Values, options, events\<close>

text \<open>
  A widget's value is a number (the knob), an object \<^verbatim>\<open>{width, height}\<close> (the resize
  handle) or \<^verbatim>\<open>undefined\<close> (before initialization). An object has an identity: the
  reference \<open>r\<close> of \<open>SizeObj r w h\<close>. The toolkit never mutates such an object, so its two
  fields travel with the reference.
\<close>

datatype jsval = Undefined | Num real | SizeObj nat num num

text \<open>
  \<^verbatim>\<open>a == b\<close> on these values: numbers by value, objects by reference, \<^verbatim>\<open>undefined\<close>
  only with itself (an object against a number is converted to NaN first).
\<close>

fun loose_eq :: "jsval \<Rightarrow> jsval \<Rightarrow> bool" where
  "loose_eq Undefined Undefined = True"
| "loose_eq (Num a) (Num b) = (a = b)"
| "loose_eq (SizeObj r _ _) (SizeObj r' _ _) = (r = r')"
| "loose_eq _ _ = False"

text \<open>
  The option bag \<^verbatim>\<open>_opt\<close>, with the keys the toolkit reads. \<open>None\<close> is a key that was
  never assigned (\<^verbatim>\<open>undefined\<close>). The two bounds of the range are reals, which the round
  trip takes as the doubles they are; the five size options are numbers of type \<open>num\<close>.
\<close>

record options =
  minValue :: "real option"
  maxValue :: "real option"
  minWidth :: "num option"
  minHeight :: "num option"
  maxWidth :: "num option"
  maxHeight :: "num option"
  maxScale :: "num option"
  keepAspectRatio :: "bool option"
  theme :: "string option"

definition no_options :: options where
  "no_options = \<lparr>minValue = None, maxValue = None, minWidth = None, minHeight = None,
     maxWidth = None, maxHeight = None, maxScale = None, keepAspectRatio = None,
     theme = None\<rparr>"

text \<open>
  \<^verbatim>\<open>x || d\<close> for a numeric option \<open>x\<close>: \<^verbatim>\<open>undefined\<close> and \<^verbatim>\<open>0\<close> are both falsy, so both
  give \<open>d\<close>.
\<close>

fun or_default :: "real option \<Rightarrow> real \<Rightarrow> real" where
  "or_default None d = d"
| "or_default (Some x) d = (if x = 0 then d else x)"

subsection \<open>RangeInputWidget: the range methods\<close>

text \<open>
  \<^verbatim>\<open>_range\<close> and \<^verbatim>\<open>_clamp\<close> read \<^verbatim>\<open>this._opt.minValue\<close> and
  \<^verbatim>\<open>this._opt.maxValue\<close>. With no bag the read throws; with the bag and an unassigned
  key the arithmetic gives NaN.
\<close>

definition read_range :: "options option \<Rightarrow> stop + real \<times> real" where
  "read_range ob =
     (case ob of
        None \<Rightarrow> Inl (TypeError ''_opt is undefined'')
      | Some ob' \<Rightarrow>
          (case (minValue ob', maxValue ob') of
             (Some lo, Some hi) \<Rightarrow> Inr (lo, hi)
           | _ \<Rightarrow> Inl NotFinite))"

definition RangeInputWidget_range :: "options option \<Rightarrow> stop + real" where
  "RangeInputWidget_range ob =
     (case read_range ob of Inl e \<Rightarrow> Inl e | Inr (lo, hi) \<Rightarrow> Inr (hi - lo))"

definition RangeInputWidget_clamp :: "options option \<Rightarrow> real \<Rightarrow> stop + real" where
  "RangeInputWidget_clamp ob v =
     (case read_range ob of Inl e \<Rightarrow> Inl e | Inr (lo, hi) \<Rightarrow> Inr (max lo (min hi v)))"

text \<open>
  The round trip, in doubles: \<^verbatim>\<open>(value - minValue) / this._range()\<close> and
  \<^verbatim>\<open>minValue + value * this._range()\<close>, where \<^verbatim>\<open>this._range()\<close> is
  \<^verbatim>\<open>maxValue - minValue\<close>. Each operation rounds; an unassigned key gives NaN.
\<close>

definition range_n :: "options \<Rightarrow> num" where
  "range_n ob = sub_n (real_opt_num (maxValue ob)) (real_opt_num (minValue ob))"

definition RangeInputWidget_normalize :: "options option \<Rightarrow> num \<Rightarrow> stop + num" where
  "RangeInputWidget_normalize ob v =
     (case ob of
        None \<Rightarrow> Inl (TypeError ''_opt is undefined'')
      | Some ob' \<Rightarrow> Inr (div_n (sub_n v (real_opt_num (minValue ob'))) (range_n ob')))"

definition RangeInputWidget_denormalize :: "options option \<Rightarrow> num \<Rightarrow> stop + num" where
  "RangeInputWidget_denormalize ob v =
     (case ob of
        None \<Rightarrow> Inl (TypeError ''_opt is undefined'')
      | Some ob' \<Rightarrow> Inr (add_n (real_opt_num (minValue ob')) (mul_n v (range_n ob'))))"

subsection \<open>Widget: classes, registration, the option bag, one-time initialization\<close>

text \<open>
  The six classes of the file. \<open>Widget\<close> is the base; \<open>ResizeHandle\<close> and \<open>Knob\<close> are
  the two that are registered as custom elements.
\<close>

datatype wclass =
  Widget | TouchAndMouseControllableWidget | InputWidget | RangeInputWidget
  | ResizeHandle | Knob

text \<open>
  For registration a class is seen through its chain of \<^verbatim>\<open>extends\<close>: \<open>Base\<close> is
  \<^verbatim>\<open>Widget\<close>, and \<open>Sub n t p\<close> is a class named \<open>n\<close> that extends \<open>p\<close> and overrides
  the static getter \<^verbatim>\<open>_unqualifiedNodeName\<close> to return \<open>t\<close> when \<open>t\<close> is \<open>Some\<close>.
  \<open>overrides c\<close> tells whether the class itself has the override; \<open>tag_of c\<close> is the
  tag the getter finds for \<open>c\<close>: its own, or else the nearest one it inherits.
\<close>

datatype cdecl = Base | Sub string "string option" cdecl

fun cname :: "cdecl \<Rightarrow> string" where
  "cname Base = ''Widget''"
| "cname (Sub n t p) = n"

fun overrides :: "cdecl \<Rightarrow> bool" where
  "overrides (Sub n (Some t) p) = True"
| "overrides _ = False"

fun tag_of :: "cdecl \<Rightarrow> string option" where
  "tag_of Base = None"
| "tag_of (Sub n (Some t) p) = Some t"
| "tag_of (Sub n None p) = tag_of p"

definition decl_of :: "wclass \<Rightarrow> cdecl" where
  "decl_of c =
     (let tm = Sub ''TouchAndMouseControllableWidget'' None Base;
          iw = Sub ''InputWidget'' None tm;
          rw = Sub ''RangeInputWidget'' None iw
      in case c of
           Widget \<Rightarrow> Base
         | TouchAndMouseControllableWidget \<Rightarrow> tm
         | InputWidget \<Rightarrow> iw
         | RangeInputWidget \<Rightarrow> rw
         | ResizeHandle \<Rightarrow> Sub ''ResizeHandle'' (Some ''resize-handle'') iw
         | Knob \<Rightarrow> Sub ''Knob'' (Some ''knob'') rw)"

text \<open>
  The static getter, looked up from the class it is read on (\<^verbatim>\<open>this\<close>): the nearest
  override wins, and \<^verbatim>\<open>Widget\<close>'s own getter throws, naming \<^verbatim>\<open>this.name\<close>.
\<close>

definition Widget_unqualifiedNodeName :: "cdecl \<Rightarrow> stop + string" where
  "Widget_unqualifiedNodeName c =
     (case tag_of c of
        None \<Rightarrow> Inl (TypeError (''_unqualifiedNodeName not implemented for '' @ cname c))
      | Some t \<Rightarrow> Inr t)"

text \<open>
  \<^verbatim>\<open>_staticInit\<close> hands the qualified name and the class to
  \<^verbatim>\<open>window.customElements.define\<close>. The registry belongs to the browser: it is the
  parameter \<open>define\<close>, which returns the new registry or stops. (\<^verbatim>\<open>ResizeHandle\<close>'s
  override calls this one first and then stores its two theme graphics.)
\<close>

definition Widget_staticInit ::
  "(string \<Rightarrow> cdecl \<Rightarrow> 'reg \<Rightarrow> stop + 'reg) \<Rightarrow> cdecl \<Rightarrow> 'reg \<Rightarrow> stop + 'reg" where
  "Widget_staticInit define c reg =
     (case Widget_unqualifiedNodeName c of
        Inl e \<Rightarrow> Inl e
      | Inr t \<Rightarrow> define (''a-'' @ t) c reg)"

text \<open>
  The browser's registry, after \<^verbatim>\<open>CustomElementRegistry.define\<close> of the HTML standard:
  a name that is not a valid custom element name is a \<^verbatim>\<open>SyntaxError\<close>, a name or a
  class that the registry already holds is a \<^verbatim>\<open>NotSupportedError\<close>, and otherwise the
  definition is added. Which names are valid is the standard's matter (it has changed
  between versions): the test is the parameter \<open>valid\<close>. Every version refuses an
  upper-case ASCII letter and accepts, after a lower-case first letter and with a
  hyphen, lower-case ASCII letters, digits, \<open>-\<close>, \<open>.\<close> and \<open>_\<close>; \<open>plain_name\<close> is the test
  on names written with ASCII letters, digits and these signs.
\<close>

definition customElements_define ::
  "(string \<Rightarrow> bool) \<Rightarrow> string \<Rightarrow> cdecl \<Rightarrow> (string \<times> cdecl) list
     \<Rightarrow> stop + (string \<times> cdecl) list" where
  "customElements_define valid n c reg =
     (if \<not> valid n then Inl (DOMException ''SyntaxError'')
      else if n \<in> fst ` set reg \<or> c \<in> snd ` set reg
        then Inl (DOMException ''NotSupportedError'')
      else Inr (reg @ [(n, c)]))"

definition plain_name :: "string \<Rightarrow> bool" where
  "plain_name n =
     (case n of
        [] \<Rightarrow> False
      | c # cs \<Rightarrow>
          c \<in> set ''abcdefghijklmnopqrstuvwxyz'' \<and> CHR ''-'' \<in> set cs
          \<and> list_all (\<lambda>x. x \<in> set ''abcdefghijklmnopqrstuvwxyz0123456789-._'') cs)"

text \<open>What the browser tells the script: sizes in CSS pixels, and the pixel ratio.\<close>

record env =
  bodyClientWidth :: real
  bodyClientHeight :: real
  screenWidth :: real
  screenHeight :: real
  devicePixelRatio :: real
  clientWidth :: real
  clientHeight :: real

text \<open>
  \<open>clientWidth\<close> and \<open>clientHeight\<close> are the widget's own box (\<^verbatim>\<open>this.clientWidth\<close>),
  the \<open>body\<close> fields are \<^verbatim>\<open>document.body\<close>'s, the \<open>screen\<close> fields \<^verbatim>\<open>window.screen\<close>'s.
\<close>

record device_event =
  shiftKey :: bool
  ctrlKey :: bool

record control_event =
  originalEvent :: device_event
  ev_shiftKey :: bool
  ev_ctrlKey :: bool

record start_event = control_event +
  clientX :: real
  clientY :: real

record continue_event = start_event +
  movementX :: real
  movementY :: real

datatype event =
  Controlstart start_event
  | Controlcontinue continue_event
  | Controlend control_event
  | InputEvent jsval

datatype graphic = DOTS | LINES

text \<open>
  The state of one widget: the fields the methods assign, each under its name in the
  script without the leading underscore (\<open>val\<close> is \<^verbatim>\<open>_value\<close>). \<open>listeners\<close> are the
  event types the widget listens to on itself, \<open>children\<close> the \<^verbatim>\<open>innerText\<close> of its
  child labels (\<open>None\<close>: no number shown), \<open>dispatched\<close> the events it has dispatched,
  oldest first, and \<open>nextRef\<close> the reference the next object literal gets. Listeners are
  observers: they do not call back into the widget. The knob's numeric gesture fields
  are assigned at the start of a gesture, before a continue step reads them; the resize
  handle's three numbers are NaN until assigned, as \<^verbatim>\<open>undefined\<close> is in arithmetic. The two
  listeners on \<^verbatim>\<open>window\<close> that a mouse press arms and its release removes only feed
  the continue and end phases; they are not part of the state.
\<close>

record widget =
  cls :: wclass
  opt :: "options option"
  instanceInitialized :: bool
  listeners :: "string list"
  children :: "real option list"
  innerHTML :: "graphic option"
  prevClientX :: real
  prevClientY :: real
  val :: jsval
  startValue :: jsval
  axis :: real
  drag_d :: real
  aspectRatio :: num
  width :: num
  height :: num
  dispatched :: "event list"
  nextRef :: nat

definition createElement :: "wclass \<Rightarrow> widget" where
  "createElement c =
     \<lparr>cls = c, opt = None, instanceInitialized = False, listeners = [], children = [],
      innerHTML = None, prevClientX = 0, prevClientY = 0, val = Undefined,
      startValue = Undefined, axis = 0, drag_d = 0, aspectRatio = NaN, width = NaN,
      height = NaN, dispatched = [], nextRef = 0\<rparr>"

definition dispatchEvent :: "event \<Rightarrow> widget \<Rightarrow> widget" where
  "dispatchEvent e w = w\<lparr>dispatched := dispatched w @ [e]\<rparr>"

text \<open>
  \<^verbatim>\<open>get opt()\<close> creates the bag on first access. \<open>set_option f\<close> is an assignment
  through the getter, such as \<^verbatim>\<open>elem.opt.minValue = 1\<close>.
\<close>

definition Widget_get_opt :: "widget \<Rightarrow> options \<times> widget" where
  "Widget_get_opt w =
     (case opt w of
        None \<Rightarrow> (no_options, w\<lparr>opt := Some no_options\<rparr>)
      | Some ob \<Rightarrow> (ob, w))"

definition set_option :: "(options \<Rightarrow> options) \<Rightarrow> widget \<Rightarrow> widget" where
  "set_option f w = (case Widget_get_opt w of (ob, w') \<Rightarrow> w'\<lparr>opt := Some (f ob)\<rparr>)"

definition Widget_instanceInit :: "widget \<Rightarrow> widget result" where
  "Widget_instanceInit w = Ok w"

definition TouchAndMouseControllableWidget_instanceInit :: "widget \<Rightarrow> widget result" where
  "TouchAndMouseControllableWidget_instanceInit w =
     and_then (Widget_instanceInit w) (\<lambda>w.
       Ok (w\<lparr>listeners := listeners w
              @ [''touchstart'', ''touchmove'', ''touchend'', ''mousedown'']\<rparr>))"

definition InputWidget_instanceInit :: "widget \<Rightarrow> widget result" where
  "InputWidget_instanceInit w =
     and_then (TouchAndMouseControllableWidget_instanceInit w) (\<lambda>w. Ok (w\<lparr>val := Num 0\<rparr>))"

definition RangeInputWidget_instanceInit :: "widget \<Rightarrow> widget result" where
  "RangeInputWidget_instanceInit w =
     and_then (InputWidget_instanceInit w) (\<lambda>w.
       case opt w of
         None \<Rightarrow> Stop (TypeError ''_opt is undefined'') w
       | Some ob \<Rightarrow>
           Ok (w\<lparr>opt := Some (ob\<lparr>minValue := Some (or_default (minValue ob) 0),
                                   maxValue := Some (or_default (maxValue ob) 1)\<rparr>)\<rparr>))"

definition Knob_instanceInit :: "widget \<Rightarrow> widget result" where
  "Knob_instanceInit w =
     and_then (RangeInputWidget_instanceInit w) (\<lambda>w. Ok (w\<lparr>children := children w @ [None]\<rparr>))"

text \<open>
  \<^verbatim>\<open>ResizeHandle._instanceInit\<close>, in doubles. \<^verbatim>\<open>if (this._opt.maxScale)\<close> is true for a
  number other than zero and NaN; \<^verbatim>\<open>keepAspectRatio === false ? false : true\<close> keeps an
  explicit \<^verbatim>\<open>false\<close> only; \<^verbatim>\<open>this._opt.theme || 'dots'\<close> takes the empty string for
  unset. The hook always completes: with a minimum height of zero the ratio is an infinity
  or NaN. The fixed style assignments have no part in what follows and are left out.
\<close>

fun max_bound :: "num option \<Rightarrow> num \<Rightarrow> num option \<Rightarrow> real \<Rightarrow> num" where
  "max_bound (Some s) m explicit screen =
     (if truthy_n s then mul_n s m else or_default_n explicit (Fin screen))"
| "max_bound None m explicit screen = or_default_n explicit (Fin screen)"

definition ResizeHandle_instanceInit :: "env \<Rightarrow> widget \<Rightarrow> widget result" where
  "ResizeHandle_instanceInit e w =
     and_then (InputWidget_instanceInit w) (\<lambda>w.
       case opt w of
         None \<Rightarrow> Stop (TypeError ''_opt is undefined'') w
       | Some ob \<Rightarrow>
           (let mw = or_default_n (minWidth ob) (Fin (bodyClientWidth e));
                mh = or_default_n (minHeight ob) (Fin (bodyClientHeight e));
                w1 = w\<lparr>opt := Some (ob\<lparr>
                       minWidth := Some mw,
                       minHeight := Some mh,
                       maxWidth := Some (max_bound (maxScale ob) mw (maxWidth ob) (screenWidth e)),
                       maxHeight := Some (max_bound (maxScale ob) mh (maxHeight ob) (screenHeight e)),
                       keepAspectRatio := Some (keepAspectRatio ob \<noteq> Some False)\<rparr>)\<rparr>
            in Ok (w1\<lparr>aspectRatio := div_n mw mh, width := Fin 0, height := Fin 0,
                     innerHTML :=
                       (case theme ob of
                          None \<Rightarrow> Some DOTS
                        | Some t \<Rightarrow>
                            if t = [] \<or> t = ''dots'' then Some DOTS
                            else if t = ''lines'' then Some LINES
                            else innerHTML w1)\<rparr>)))"

definition instanceInit :: "env \<Rightarrow> widget \<Rightarrow> widget result" where
  "instanceInit e w =
     (case cls w of
        Widget \<Rightarrow> Widget_instanceInit w
      | TouchAndMouseControllableWidget \<Rightarrow> TouchAndMouseControllableWidget_instanceInit w
      | InputWidget \<Rightarrow> InputWidget_instanceInit w
      | RangeInputWidget \<Rightarrow> RangeInputWidget_instanceInit w
      | ResizeHandle \<Rightarrow> ResizeHandle_instanceInit e w
      | Knob \<Rightarrow> Knob_instanceInit w)"

definition connectedCallback :: "env \<Rightarrow> widget \<Rightarrow> widget result" where
  "connectedCallback e w =
     (if \<not> instanceInitialized w
      then and_then (instanceInit e w) (\<lambda>w. Ok (w\<lparr>instanceInitialized := True\<rparr>))
      else Ok w)"

subsection \<open>InputWidget: the value\<close>

definition InputWidget_value :: "widget \<Rightarrow> jsval" where
  "InputWidget_value w = val w"

text \<open>
  \<^verbatim>\<open>Knob._onSetValue\<close> writes \<^verbatim>\<open>Math.floor(10 * value) / 10\<close> into the first child;
  with no child the assignment throws. The other classes keep the no-op.
\<close>

fun label_number :: "jsval \<Rightarrow> real option" where
  "label_number (Num r) = Some (of_int \<lfloor>10 * r\<rfloor> / 10)"
| "label_number _ = None"

definition Knob_onSetValue :: "jsval \<Rightarrow> widget \<Rightarrow> widget result" where
  "Knob_onSetValue v w =
     (case children w of
        [] \<Rightarrow> Stop (TypeError ''children[0] is undefined'') w
      | c # cs \<Rightarrow> Ok (w\<lparr>children := label_number v # cs\<rparr>))"

definition onSetValue :: "jsval \<Rightarrow> widget \<Rightarrow> widget result" where
  "onSetValue v w = (case cls w of Knob \<Rightarrow> Knob_onSetValue v w | _ \<Rightarrow> Ok w)"

text \<open>
  \<^verbatim>\<open>_setValue(value, runInternalCallback)\<close>; the second argument is \<open>None\<close> when the
  caller leaves it out, and the hook is skipped only for an explicit \<^verbatim>\<open>false\<close>.
\<close>

definition InputWidget_setValue :: "jsval \<Rightarrow> bool option \<Rightarrow> widget \<Rightarrow> widget result" where
  "InputWidget_setValue v runInternalCallback w =
     (if loose_eq (val w) v then Ok w
      else
        and_then
          (if runInternalCallback \<noteq> Some False then onSetValue v (w\<lparr>val := v\<rparr>)
           else Ok (w\<lparr>val := v\<rparr>))
          (\<lambda>w. Ok (dispatchEvent (InputEvent (val w)) w)))"

definition InputWidget_set_value :: "jsval \<Rightarrow> widget \<Rightarrow> widget result" where
  "InputWidget_set_value v w = InputWidget_setValue v None w"

subsection \<open>Knob and ResizeHandle: the gesture hooks\<close>

definition Knob_onControlEventStart :: "start_event \<Rightarrow> widget \<Rightarrow> widget result" where
  "Knob_onControlEventStart ev w = Ok (w\<lparr>startValue := val w, axis := 0, drag_d := 0\<rparr>)"

text \<open>
  \<^verbatim>\<open>this._startValue + dv\<close> is a number only when the start value is one; \<^verbatim>\<open>dv\<close> is
  finite only when the widget's box is not empty along the locked axis.
\<close>

definition Knob_onControlEventContinue :: "env \<Rightarrow> continue_event \<Rightarrow> widget \<Rightarrow> widget result" where
  "Knob_onControlEventContinue e ev w =
     (if \<bar>axis w\<bar> < 3
      then Ok (w\<lparr>axis := axis w + (\<bar>movementX ev\<bar> - \<bar>movementY ev\<bar>)\<rparr>)
      else
        (let w1 = (if axis w > 0 then w\<lparr>drag_d := drag_d w + movementX ev\<rparr>
                   else w\<lparr>drag_d := drag_d w - movementY ev\<rparr>);
             extent = (if axis w > 0 then clientWidth e else clientHeight e)
         in case RangeInputWidget_range (opt w1) of
              Inl s \<Rightarrow> Stop s w1
            | Inr r \<Rightarrow>
                (case startValue w1 of
                   Num sv \<Rightarrow>
                     if extent = 0 then Stop NotFinite w1
                     else
                       (case RangeInputWidget_clamp (opt w1) (sv + r * drag_d w1 / extent) of
                          Inl s \<Rightarrow> Stop s w1
                        | Inr c \<Rightarrow> InputWidget_setValue (Num c) None w1)
                 | _ \<Rightarrow> Stop NotFinite w1)))"

definition ResizeHandle_onControlEventStart :: "env \<Rightarrow> start_event \<Rightarrow> widget \<Rightarrow> widget result" where
  "ResizeHandle_onControlEventStart e ev w =
     Ok (w\<lparr>width := Fin (bodyClientWidth e), height := Fin (bodyClientHeight e)\<rparr>)"

text \<open>
  \<^verbatim>\<open>ResizeHandle._onControlEventContinue\<close>, in doubles. The four bounds are read from the
  bag; the object literal passed to \<^verbatim>\<open>_setValue\<close> is a new object, with the next
  reference.
\<close>

definition ResizeHandle_onControlEventContinue ::
  "env \<Rightarrow> continue_event \<Rightarrow> widget \<Rightarrow> widget result" where
  "ResizeHandle_onControlEventContinue e ev w =
     (case opt w of
        None \<Rightarrow> Stop (TypeError ''_opt is undefined'') w
      | Some ob \<Rightarrow>
          (let newWidth = max_n (opt_num (minWidth ob))
                 (min_n (opt_num (maxWidth ob)) (add_n (width w) (Fin (movementX ev))));
               newHeight = max_n (opt_num (minHeight ob))
                 (min_n (opt_num (maxHeight ob)) (add_n (height w) (Fin (movementY ev))));
               keep = (keepAspectRatio ob = Some True);
               newHeight' = (if keep \<and> movementX ev > movementY ev
                             then div_n newWidth (aspectRatio w) else newHeight);
               newWidth' = (if keep \<and> \<not> movementX ev > movementY ev
                            then mul_n newHeight (aspectRatio w) else newWidth)
           in if ne_n (width w) newWidth' \<or> ne_n (height w) newHeight'
              then
                (let w1 = w\<lparr>width := newWidth', height := newHeight'\<rparr>;
                     k = Fin (devicePixelRatio e)
                 in InputWidget_setValue
                      (SizeObj (nextRef w1) (mul_n k (width w1)) (mul_n k (height w1))) None
                      (w1\<lparr>nextRef := Suc (nextRef w1)\<rparr>))
              else Ok w))"

subsection \<open>TouchAndMouseControllableWidget: the three phases of a gesture\<close>

definition onControlEventStart :: "env \<Rightarrow> start_event \<Rightarrow> widget \<Rightarrow> widget result" where
  "onControlEventStart e ev w =
     (case cls w of
        ResizeHandle \<Rightarrow> ResizeHandle_onControlEventStart e ev w
      | Knob \<Rightarrow> Knob_onControlEventStart ev w
      | _ \<Rightarrow> Ok w)"

definition onControlEventContinue :: "env \<Rightarrow> continue_event \<Rightarrow> widget \<Rightarrow> widget result" where
  "onControlEventContinue e ev w =
     (case cls w of
        ResizeHandle \<Rightarrow> ResizeHandle_onControlEventContinue e ev w
      | Knob \<Rightarrow> Knob_onControlEventContinue e ev w
      | _ \<Rightarrow> Ok w)"

definition onControlEventEnd :: "control_event \<Rightarrow> widget \<Rightarrow> widget result" where
  "onControlEventEnd ev w = Ok w"

definition createControlEvent :: "device_event \<Rightarrow> control_event" where
  "createControlEvent orig =
     \<lparr>originalEvent = orig, ev_shiftKey = shiftKey orig, ev_ctrlKey = ctrlKey orig\<rparr>"

text \<open>
  \<^verbatim>\<open>_handleInputStart\<close>, \<^verbatim>\<open>_handleInputContinue\<close>, \<^verbatim>\<open>_handleInputEnd\<close>: the control
  event is the one \<^verbatim>\<open>_createControlEvent\<close> returns, with the coordinates (and, on a
  continue step, the movement since the previous step) added to it.
\<close>

definition handleInputStart :: "env \<Rightarrow> device_event \<Rightarrow> real \<Rightarrow> real \<Rightarrow> widget \<Rightarrow> widget result" where
  "handleInputStart e orig x y w =
     (let ce = createControlEvent orig;
          ev = \<lparr>originalEvent = originalEvent ce, ev_shiftKey = ev_shiftKey ce,
                ev_ctrlKey = ev_ctrlKey ce, clientX = x, clientY = y\<rparr>;
          w1 = w\<lparr>prevClientX := x, prevClientY := y\<rparr>
      in onControlEventStart e ev (dispatchEvent (Controlstart ev) w1))"

definition handleInputContinue ::
  "env \<Rightarrow> device_event \<Rightarrow> real \<Rightarrow> real \<Rightarrow> widget \<Rightarrow> widget result" where
  "handleInputContinue e orig x y w =
     (let ce = createControlEvent orig;
          ev = \<lparr>originalEvent = originalEvent ce, ev_shiftKey = ev_shiftKey ce,
                ev_ctrlKey = ev_ctrlKey ce, clientX = x, clientY = y,
                movementX = x - prevClientX w, movementY = y - prevClientY w\<rparr>;
          w1 = w\<lparr>prevClientX := x, prevClientY := y\<rparr>
      in onControlEventContinue e ev (dispatchEvent (Controlcontinue ev) w1))"

definition handleInputEnd :: "device_event \<Rightarrow> widget \<Rightarrow> widget result" where
  "handleInputEnd orig w =
     (let ev = createControlEvent orig
      in onControlEventEnd ev (dispatchEvent (Controlend ev) w))"

text \<open>
  What the device listeners feed in: where a touch or a pressed mouse button starts,
  where it moves to, and that it ends. A gesture is a list of such inputs, each with the
  browser's sizes at that moment; it is followed as long as no step stops.
\<close>

datatype input =
  InputStart device_event real real
  | InputContinue device_event real real
  | InputEnd device_event

fun handleInput :: "env \<Rightarrow> input \<Rightarrow> widget \<Rightarrow> widget result" where
  "handleInput e (InputStart orig x y) w = handleInputStart e orig x y w"
| "handleInput e (InputContinue orig x y) w = handleInputContinue e orig x y w"
| "handleInput e (InputEnd orig) w = handleInputEnd orig w"

fun run :: "(env \<times> input) list \<Rightarrow> widget \<Rightarrow> widget result" where
  "run [] w = Ok w"
| "run ((e, i) # rest) w = and_then (handleInput e i w) (run rest)"

subsection \<open>Observations and examples\<close>

text \<open>The classes that have a value: \<^verbatim>\<open>InputWidget\<close> and the classes below it.\<close>

fun is_InputWidget :: "wclass \<Rightarrow> bool" where
  "is_InputWidget Widget = False"
| "is_InputWidget TouchAndMouseControllableWidget = False"
| "is_InputWidget _ = True"

text \<open>
  The element enters a live tree once per list entry (attach, detach, attach again, ...).
  An exception thrown by \<^verbatim>\<open>connectedCallback\<close> is reported by the browser and the element
  stays where it is, with the state the exception left, so the next connection goes on
  from that state.
\<close>

fun connects :: "env list \<Rightarrow> widget \<Rightarrow> widget result" where
  "connects [] w = Ok w"
| "connects (e # es) w =
     (case connectedCallback e w of
        Ok w' \<Rightarrow> connects es w'
      | Stop _ w' \<Rightarrow> connects es w')"

text \<open>The payloads of the \<^verbatim>\<open>input\<close> events among a list of dispatched events.\<close>

fun inputs_of :: "event list \<Rightarrow> jsval list" where
  "inputs_of [] = []"
| "inputs_of (InputEvent v # es) = v # inputs_of es"
| "inputs_of (_ # es) = inputs_of es"






text \<open>
  \<open>bounded_handle keep a b c d w\<close>: \<open>w\<close> is a resize handle whose bag holds the finite
  bounds \<open>minWidth = a \<le> maxWidth = b\<close> and \<open>minHeight = c \<le> maxHeight = d\<close>, whose ratio
  lock is \<open>keep\<close>, whose width and height are not NaN and, when the ratio is locked, whose
  ratio is finite and not zero.
\<close>

definition bounded_handle :: "bool \<Rightarrow> real \<Rightarrow> real \<Rightarrow> real \<Rightarrow> real \<Rightarrow> widget \<Rightarrow> bool" where
  "bounded_handle keep a b c d w =
     (cls w = ResizeHandle \<and> a \<le> b \<and> c \<le> d \<and> width w \<noteq> NaN \<and> height w \<noteq> NaN
      \<and> (case opt w of
            None \<Rightarrow> False
          | Some ob \<Rightarrow>
              minWidth ob = Some (Fin a) \<and> maxWidth ob = Some (Fin b)
              \<and> minHeight ob = Some (Fin c) \<and> maxHeight ob = Some (Fin d)
              \<and> (keepAspectRatio ob = Some True) = keep
              \<and> (keep \<longrightarrow> (case aspectRatio w of Fin q \<Rightarrow> q \<noteq> 0 | _ \<Rightarrow> False))))"

definition example_env :: env where
  "example_env =
     \<lparr>bodyClientWidth = 400, bodyClientHeight = 200, screenWidth = 1920,
      screenHeight = 1080, devicePixelRatio = 1, clientWidth = 200, clientHeight = 200\<rparr>"

definition retina_env :: env where
  "retina_env = example_env\<lparr>devicePixelRatio := 2\<rparr>"

definition example_device :: device_event where
  "example_device = \<lparr>shiftKey = False, ctrlKey = False\<rparr>"

text \<open>
  A knob made as \<^verbatim>\<open>CastelloRevUI._createInputWidgets\<close> makes one
  (\<^verbatim>\<open>createElement\<close>, two options, then into the document), with the range 0 to 100,
  and its value set to 50.
\<close>

definition example_knob :: widget where
  "example_knob =
     state_of (InputWidget_set_value (Num 50)
       (state_of (connectedCallback example_env
         (set_option (\<lambda>ob. ob\<lparr>maxValue := Some 100\<rparr>)
           (set_option (\<lambda>ob. ob\<lparr>minValue := Some 0\<rparr>) (createElement Knob))))))"

text \<open>A knob with the range -1 to 0, before it enters the document.\<close>

definition unit_below_zero_knob :: widget where
  "unit_below_zero_knob =
     set_option (\<lambda>ob. ob\<lparr>maxValue := Some 0\<rparr>)
       (set_option (\<lambda>ob. ob\<lparr>minValue := Some (- 1)\<rparr>) (createElement Knob))"

text \<open>A knob for the low-pass frequency of \<^verbatim>\<open>CastelloRevUI\<close>, before it enters the document.\<close>

definition lpfreq_knob :: widget where
  "lpfreq_knob =
     set_option (\<lambda>ob. ob\<lparr>maxValue := Some 10000\<rparr>)
       (set_option (\<lambda>ob. ob\<lparr>minValue := Some 100\<rparr>) (createElement Knob))"





section \<open>Properties\<close>

lemmas init_defs = connectedCallback_def instanceInit_def Widget_instanceInit_def
  TouchAndMouseControllableWidget_instanceInit_def InputWidget_instanceInit_def
  RangeInputWidget_instanceInit_def Knob_instanceInit_def ResizeHandle_instanceInit_def

lemmas create_defs = set_option_def Widget_get_opt_def createElement_def no_options_def

lemmas value_defs = InputWidget_set_value_def InputWidget_setValue_def onSetValue_def
  Knob_onSetValue_def dispatchEvent_def

lemmas gesture_defs = handleInputStart_def handleInputContinue_def handleInputEnd_def
  onControlEventStart_def onControlEventContinue_def onControlEventEnd_def
  Knob_onControlEventStart_def Knob_onControlEventContinue_def
  ResizeHandle_onControlEventStart_def ResizeHandle_onControlEventContinue_def
  createControlEvent_def

lemmas range_defs = RangeInputWidget_range_def RangeInputWidget_clamp_def read_range_def

subsection \<open>Rounding\<close>

text \<open>Rounding to an integer moves a number by at most one half.\<close>

lemma round_even_error: "\<bar>of_int (round_even y) - y\<bar> \<le> 1 / 2"
proof -
  have "of_int \<lfloor>y\<rfloor> \<le> y" "y < of_int \<lfloor>y\<rfloor> + 1" by linarith+
  then show ?thesis by (auto simp: round_even_def Let_def)
qed

text \<open>\<open>expo x\<close> is the binary exponent of \<open>x\<close>.\<close>

lemma expo_bounds:
  assumes "x \<noteq> 0"
  shows "2 powi (expo x) \<le> \<bar>x\<bar>" and "\<bar>x\<bar> < 2 powi (expo x + 1)"
proof -
  have "2 powi (expo x) \<le> \<bar>x\<bar> \<and> \<bar>x\<bar> < 2 powi (expo x + 1)"
  proof (cases "1 \<le> \<bar>x\<bar>")
    case True
    define n where "n = \<lfloor>\<bar>x\<bar>\<rfloor>"
    have n: "0 < n" "of_int n \<le> \<bar>x\<bar>" "\<bar>x\<bar> < of_int n + 1"
      using True unfolding n_def by linarith+
    from bitlen_bounds [OF n(1)]
    have b: "2 ^ nat (bitlen n - 1) \<le> n" "n + 1 \<le> 2 ^ nat (bitlen n)" by auto
    have k: "1 \<le> bitlen n" using n(1) bitlen_eq_zero_iff [of n] bitlen_nonneg [of n] by linarith
    have e: "expo x = bitlen n - 1" using True by (simp add: expo_def n_def)
    have "(2::real) powi (bitlen n - 1) = of_int (2 ^ nat (bitlen n - 1))"
      using k by (simp add: power_int_nonneg_exp)
    also have "\<dots> \<le> of_int n" using b(1) by (simp only: of_int_le_iff)
    finally have lower: "(2::real) powi (bitlen n - 1) \<le> \<bar>x\<bar>" using n(2) by linarith
    have "of_int (n + 1) \<le> (of_int (2 ^ nat (bitlen n)) :: real)"
      using b(2) by (simp only: of_int_le_iff)
    also have "\<dots> = 2 powi (bitlen n)" using k by (simp add: power_int_nonneg_exp)
    finally have upper: "\<bar>x\<bar> < 2 powi (bitlen n)" using n(3) by simp
    show ?thesis using lower upper e by simp
  next
    case False
    define y where "y = 1 / \<bar>x\<bar>"
    define m where "m = \<lceil>y\<rceil> - 1"
    have xpos: "0 < \<bar>x\<bar>" using assms by simp
    have y1: "1 < y" using False xpos by (simp add: y_def)
    have m: "0 < m" "of_int m < y" "y \<le> of_int m + 1"
      using y1 unfolding m_def by linarith+
    from bitlen_bounds [OF m(1)]
    have b: "2 ^ nat (bitlen m - 1) \<le> m" "m + 1 \<le> 2 ^ nat (bitlen m)" by auto
    have k: "1 \<le> bitlen m" using m(1) bitlen_eq_zero_iff [of m] bitlen_nonneg [of m] by linarith
    have e: "expo x = - bitlen m" using False by (simp add: expo_def m_def y_def)
    have "y \<le> of_int (m + 1)" using m(3) by simp
    also have "\<dots> \<le> (of_int (2 ^ nat (bitlen m)) :: real)"
      using b(2) by (simp only: of_int_le_iff)
    finally have yle: "y \<le> 2 ^ nat (bitlen m)" by simp
    have "(of_int (2 ^ nat (bitlen m - 1)) :: real) \<le> of_int m"
      using b(1) by (simp only: of_int_le_iff)
    then have "(2::real) ^ nat (bitlen m - 1) \<le> of_int m" by simp
    then have ygt: "2 ^ nat (bitlen m - 1) < y" using m(2) by linarith
    have x_eq: "\<bar>x\<bar> = 1 / y" using xpos by (simp add: y_def)
    have "(2::real) powi (- bitlen m) = inverse (2 powi bitlen m)"
      by (rule power_int_minus)
    also have "\<dots> = inverse (2 ^ nat (bitlen m))"
      using k by (simp add: power_int_nonneg_exp)
    finally have p1: "(2::real) powi (- bitlen m) = 1 / 2 ^ nat (bitlen m)"
      by (simp add: inverse_eq_divide)
    have "(2::real) powi (- (bitlen m - 1)) = inverse (2 powi (bitlen m - 1))"
      by (rule power_int_minus)
    also have "\<dots> = inverse (2 ^ nat (bitlen m - 1))"
      using k by (simp add: power_int_nonneg_exp)
    finally have p2: "(2::real) powi (- bitlen m + 1) = 1 / 2 ^ nat (bitlen m - 1)"
      by (simp add: inverse_eq_divide)
    have lower: "(2::real) powi (- bitlen m) \<le> \<bar>x\<bar>"
      unfolding p1 x_eq using yle y1 by (simp add: frac_le)
    have upper: "\<bar>x\<bar> < 2 powi (- bitlen m + 1)"
      unfolding p2 x_eq using ygt y1 by (simp add: frac_less2)
    show ?thesis using lower upper e by simp
  qed
  then show "2 powi (expo x) \<le> \<bar>x\<bar>" and "\<bar>x\<bar> < 2 powi (expo x + 1)" by simp_all
qed

text \<open>
  The error of one rounding: relative \<open>2 powi (-53)\<close>, or, near zero, half the spacing
  \<open>2 powi (-1074)\<close> of the smallest doubles.
\<close>

lemma fl_error: "\<bar>fl x - x\<bar> \<le> \<bar>x\<bar> / 2 ^ 53 + 2 powi (- 1075)"
proof (cases "x = 0")
  case True
  then show ?thesis by (simp add: fl_def)
next
  case False
  define e where "e = max (expo x) (- 1022)"
  define q :: real where "q = 2 powi (e - 52)"
  have q: "0 < q" by (simp add: q_def)
  have f: "fl x = of_int (round_even (x / q)) * q"
    using False by (simp add: fl_def Let_def q_def e_def)
  have "fl x - x = (of_int (round_even (x / q)) - x / q) * q"
    using q by (simp add: f field_simps)
  then have "\<bar>fl x - x\<bar> = \<bar>of_int (round_even (x / q)) - x / q\<bar> * q"
    using q by (simp add: abs_mult)
  also have "\<dots> \<le> (1 / 2) * q"
    using round_even_error [of "x / q"] q by (intro mult_right_mono) simp_all
  finally have h: "\<bar>fl x - x\<bar> \<le> q / 2" by simp
  have half: "q / 2 = 2 powi (e - 53)"
    by (simp add: q_def power_int_diff)
  show ?thesis
  proof (cases "- 1022 \<le> expo x")
    case True
    then have "e = expo x" by (simp add: e_def)
    then have "q / 2 = 2 powi (expo x) / 2 ^ 53"
      unfolding half by (simp add: power_int_diff)
    also have "\<dots> \<le> \<bar>x\<bar> / 2 ^ 53"
      using expo_bounds(1) [OF False] by (simp add: divide_right_mono)
    finally have "q / 2 \<le> \<bar>x\<bar> / 2 ^ 53" .
    moreover have "(0::real) \<le> 2 powi (- 1075)" by simp
    ultimately show ?thesis using h by linarith
  next
    case False
    then have "e = - 1022" by (simp add: e_def)
    then have "q / 2 = 2 powi (- 1075)" unfolding half by simp
    moreover have "0 \<le> \<bar>x\<bar> / 2 ^ 53" by simp
    ultimately show ?thesis using h by linarith
  qed
qed

lemma powi_1075_small: "(2::real) powi (- 1075) \<le> 1 / 2 ^ 100"
proof -
  have "(2::real) powi (- 1075) = inverse (2 powi 1075)" by (rule power_int_minus)
  also have "\<dots> = 1 / 2 ^ 1075" by (simp add: power_int_nonneg_exp inverse_eq_divide)
  also have "\<dots> \<le> 1 / 2 ^ 100" by (intro divide_left_mono power_increasing) simp_all
  finally show ?thesis .
qed

lemma fl_error_coarse: "\<bar>fl x - x\<bar> \<le> \<bar>x\<bar> * (1 / 2 ^ 53) + 1 / 2 ^ 100"
  using fl_error [of x] powi_1075_small by simp

text \<open>Every double is a multiple of \<open>2 powi (-1074)\<close>, so two of them are that far apart.\<close>

lemma fl_grid:
  assumes "fl x = x"
  shows "\<exists>m::int. x = of_int m * 2 powi (- 1074)"
proof (cases "x = 0")
  case True
  then show ?thesis by (intro exI [of _ 0]) simp
next
  case False
  define e where "e = max (expo x) (- 1022)"
  define n where "n = round_even (x / 2 powi (e - 52))"
  have e: "0 \<le> e + 1022" by (simp add: e_def)
  have "x = of_int n * 2 powi (e - 52)"
    using assms False by (simp add: fl_def Let_def e_def n_def)
  also have "(2::real) powi (e - 52) = 2 powi (e + 1022) * 2 powi (- 1074)"
  proof -
    have eq: "e - 52 = (e + 1022) + (- 1074)" by simp
    show ?thesis unfolding eq by (rule power_int_add) simp
  qed
  also have "(2::real) powi (e + 1022) = of_int (2 ^ nat (e + 1022))"
    using e by (simp add: power_int_nonneg_exp)
  finally have "x = of_int (n * 2 ^ nat (e + 1022)) * 2 powi (- 1074)" by simp
  then show ?thesis by blast
qed

lemma doubles_apart:
  assumes "fl lo = lo" and "fl hi = hi" and "lo < hi"
  shows "2 powi (- 1074) \<le> hi - lo"
proof -
  from fl_grid [OF assms(1)] obtain m where m: "lo = of_int m * 2 powi (- 1074)" by blast
  from fl_grid [OF assms(2)] obtain n where n: "hi = of_int n * 2 powi (- 1074)" by blast
  have g: "(0::real) < 2 powi (- 1074)" by simp
  have "of_int m * 2 powi (- 1074) < of_int n * (2::real) powi (- 1074)"
    using assms(3) m n by simp
  then have "m < n" using g by (simp only: mult_less_cancel_right_pos of_int_less_iff)
  then have "(1::real) \<le> of_int (n - m)" by simp
  then have "1 * 2 powi (- 1074) \<le> of_int (n - m) * (2::real) powi (- 1074)"
    using g by (intro mult_right_mono) simp_all
  then show ?thesis by (simp add: m n algebra_simps)
qed

text \<open>A result of moderate size stays of moderate size, and does not overflow.\<close>

lemma fl_abs_le:
  assumes "\<bar>z\<bar> \<le> B" and "B \<le> 100000000"
  shows "\<bar>fl z\<bar> \<le> B + 1"
proof -
  define u :: real where "u = 1 / 2 ^ 53"
  define h :: real where "h = 1 / 2 ^ 100"
  have u: "0 \<le> u" "100000000 * u + h \<le> 1" by (simp_all add: u_def h_def)
  have "\<bar>z\<bar> \<le> 100000000" using assms by linarith
  then have "\<bar>z\<bar> * u \<le> 100000000 * u" using u(1) by (intro mult_right_mono)
  moreover have "\<bar>fl z - z\<bar> \<le> \<bar>z\<bar> * u + h"
    unfolding u_def h_def by (rule fl_error_coarse)
  ultimately show ?thesis using assms(1) u(2) by linarith
qed

lemma to_num_Fin:
  assumes "\<bar>z\<bar> \<le> 100000000"
  shows "to_num z = Fin (fl z)"
proof -
  have "\<bar>fl z\<bar> \<le> 100000001" using fl_abs_le [OF assms] by simp
  moreover have "(100000001::real) < 2 ^ 1024" by simp
  ultimately have "fl z < 2 ^ 1024" "- (2 ^ 1024) < fl z" by linarith+
  then show ?thesis by (simp add: to_num_def Let_def)
qed


subsection \<open>The range model\<close>




subsection \<open>The round trip\<close>

text \<open>
  Five roundings, each with relative error \<open>u\<close> and absolute error \<open>h\<close>, between bounds of
  magnitude at most \<open>10^6\<close>: the errors add up to less than \<open>10^-9\<close>.
\<close>

lemma round_trip_error:
  fixes lo hi v a r t p res u h :: real
  assumes range: "- 1000000 \<le> lo" "hi \<le> 1000000" "lo \<le> v" "v \<le> hi"
    and r0: "0 < r" and u: "0 < u" "u \<le> 1 / 2 ^ 53" and h: "0 \<le> h" "h \<le> 1 / 2 ^ 100"
    and ea: "\<bar>a - (v - lo)\<bar> \<le> \<bar>v - lo\<bar> * u + h"
    and er: "\<bar>r - (hi - lo)\<bar> \<le> \<bar>hi - lo\<bar> * u + h"
    and et: "\<bar>t - a / r\<bar> \<le> \<bar>a / r\<bar> * u + h"
    and ep: "\<bar>p - t * r\<bar> \<le> \<bar>t * r\<bar> * u + h"
    and es: "\<bar>res - (lo + p)\<bar> \<le> \<bar>lo + p\<bar> * u + h"
  shows "\<bar>res - v\<bar> \<le> 1 / 10 ^ 9"
proof -
  have D: "0 \<le> v - lo" "v - lo \<le> 2000000" using range by linarith+
  have R: "0 \<le> hi - lo" "hi - lo \<le> 2000000" using range by linarith+
  have "\<bar>v - lo\<bar> * u \<le> 2000000 * u" using D u(1) by (intro mult_right_mono) simp_all
  then have a1: "\<bar>a - (v - lo)\<bar> \<le> 2000000 * u + h" using ea by linarith
  have small: "2000000 * u + h \<le> 1" using h(2) u(2) by simp
  have absa: "\<bar>a\<bar> \<le> 2000001" using a1 small D by linarith
  have "\<bar>hi - lo\<bar> * u \<le> 2000000 * u" using R u(1) by (intro mult_right_mono) simp_all
  then have r1: "\<bar>r - (hi - lo)\<bar> \<le> 2000000 * u + h" using er by linarith
  have rle: "r \<le> 2000001" using r1 small R by linarith
  have "\<bar>t - a / r\<bar> * r \<le> (\<bar>a / r\<bar> * u + h) * r"
    using et r0 by (intro mult_right_mono) simp_all
  moreover have "\<bar>t - a / r\<bar> * r = \<bar>t * r - a\<bar>"
  proof -
    have "(t - a / r) * r = t * r - a" using r0 by (simp add: field_simps)
    then have "\<bar>t * r - a\<bar> = \<bar>t - a / r\<bar> * \<bar>r\<bar>" by (simp add: abs_mult [symmetric])
    then show ?thesis using r0 by simp
  qed
  moreover have "(\<bar>a / r\<bar> * u + h) * r = \<bar>a\<bar> * u + h * r"
    using r0 by (simp add: field_simps abs_divide)
  ultimately have t0: "\<bar>t * r - a\<bar> \<le> \<bar>a\<bar> * u + h * r" by simp
  have "\<bar>a\<bar> * u \<le> 2000001 * u" using absa u(1) by (intro mult_right_mono) simp_all
  moreover have "h * r \<le> h * 2000001" using rle h(1) by (intro mult_left_mono) simp_all
  ultimately have t1: "\<bar>t * r - a\<bar> \<le> 2000001 * u + h * 2000001" using t0 by linarith
  have small2: "2000001 * u + h * 2000001 \<le> 1" using h u(2) by simp
  have abstr: "\<bar>t * r\<bar> \<le> 2000002" using t1 small2 absa by linarith
  have "\<bar>t * r\<bar> * u \<le> 2000002 * u" using abstr u(1) by (intro mult_right_mono) simp_all
  then have p1: "\<bar>p - t * r\<bar> \<le> 2000002 * u + h" using ep by linarith
  have mid: "\<bar>lo + p - v\<bar> \<le> 6000003 * u + h * 2000003"
    using p1 t1 a1 by linarith
  have small3: "6000003 * u + h * 2000003 \<le> 1" using h u(2) by simp
  have v: "\<bar>v\<bar> \<le> 1000000" using range by linarith
  have abss: "\<bar>lo + p\<bar> \<le> 1000001" using mid small3 v by linarith
  have "\<bar>lo + p\<bar> * u \<le> 1000001 * u" using abss u(1) by (intro mult_right_mono) simp_all
  then have s1: "\<bar>res - (lo + p)\<bar> \<le> 1000001 * u + h" using es by linarith
  have "\<bar>res - v\<bar> \<le> 7000004 * u + h * 2000004" using s1 mid by linarith
  moreover have "7000004 * u + h * 2000004 \<le> 1 / 10 ^ 9"
  proof -
    have "h * 2000004 \<le> (1 / 2 ^ 100) * 2000004" using h(2) by (intro mult_right_mono) simp_all
    moreover have "7000004 * u \<le> 7000004 * (1 / 2 ^ 53)" using u(2) by (intro mult_left_mono) simp_all
    moreover have "7000004 * (1 / 2 ^ 53) + (1 / 2 ^ 100) * 2000004 \<le> (1 / 10 ^ 9 :: real)" by simp
    ultimately show ?thesis by linarith
  qed
  ultimately show ?thesis by linarith
qed

text \<open>The rounded range of two different doubles is positive, and the quotient is small.\<close>

lemma rounded_range:
  assumes "fl lo = lo" and "fl hi = hi" and "lo < hi" and "lo \<le> v" and "v \<le> hi"
  shows "0 < fl (hi - lo)" and "\<bar>fl (v - lo)\<bar> \<le> 8 * fl (hi - lo)"
proof -
  define eta :: real where "eta = 2 powi (- 1074)"
  define R where "R = hi - lo"
  define D where "D = v - lo"
  have eta: "0 < eta" by (simp add: eta_def)
  have half: "(2::real) powi (- 1075) = eta / 2"
  proof -
    have "(2::real) powi (- 1074 - 1) = 2 powi (- 1074) / 2 powi 1"
      by (rule power_int_diff) simp
    then show ?thesis by (simp add: eta_def)
  qed
  have R: "eta \<le> R" unfolding eta_def R_def using assms(1-3) by (rule doubles_apart)
  have D: "0 \<le> D" "D \<le> R" using assms(4,5) by (simp_all add: D_def R_def)
  have q: "R / 2 ^ 53 \<le> R / 4" using R eta by (intro divide_left_mono) simp_all
  have qd: "D / 2 ^ 53 \<le> D / 4" using D by (intro divide_left_mono) simp_all
  have er: "\<bar>fl R - R\<bar> \<le> R / 2 ^ 53 + eta / 2"
    using fl_error [of R] R eta unfolding half by simp
  have ed: "\<bar>fl D - D\<bar> \<le> D / 2 ^ 53 + eta / 2"
    using fl_error [of D] D unfolding half by simp
  have lower: "R / 4 \<le> fl R" using er q R by linarith
  have upper: "\<bar>fl D\<bar> \<le> 2 * R" using ed qd D R eta by linarith
  show "0 < fl (hi - lo)" using lower R eta by (simp add: R_def)
  show "\<bar>fl (v - lo)\<bar> \<le> 8 * fl (hi - lo)" using lower upper by (simp add: R_def D_def)
qed

text \<open>
  C5, as the code has it. On a range whose bounds are doubles with
  \<open>-10^6 \<le> minValue < maxValue \<le> 10^6\<close>, for every \<open>v\<close> of \<open>[minValue, maxValue]\<close> the round
  trip in double arithmetic gives a finite number not further than \<open>10^-9\<close> from \<open>v\<close>.
\<close>

theorem denormalize_normalize_close:
  assumes "minValue ob = Some lo" and "maxValue ob = Some hi"
    and "fl lo = lo" and "fl hi = hi" and "lo < hi"
    and "- 1000000 \<le> lo" and "hi \<le> 1000000" and "lo \<le> v" and "v \<le> hi"
  shows "\<exists>n v'. RangeInputWidget_normalize (Some ob) (Fin v) = Inr n
           \<and> RangeInputWidget_denormalize (Some ob) n = Inr (Fin v')
           \<and> \<bar>v' - v\<bar> \<le> 1 / 10 ^ 9"
proof -
  define a where "a = fl (v - lo)"
  define r where "r = fl (hi - lo)"
  define t where "t = fl (a / r)"
  define p where "p = fl (t * r)"
  define res where "res = fl (lo + p)"
  have r0: "0 < r" and ar: "\<bar>a\<bar> \<le> 8 * r"
    using rounded_range [OF assms(3,4,5,8,9)] by (simp_all add: a_def r_def)
  have ea: "\<bar>a - (v - lo)\<bar> \<le> \<bar>v - lo\<bar> * (1 / 2 ^ 53) + 1 / 2 ^ 100"
    unfolding a_def by (rule fl_error_coarse)
  have er: "\<bar>r - (hi - lo)\<bar> \<le> \<bar>hi - lo\<bar> * (1 / 2 ^ 53) + 1 / 2 ^ 100"
    unfolding r_def by (rule fl_error_coarse)
  have et: "\<bar>t - a / r\<bar> \<le> \<bar>a / r\<bar> * (1 / 2 ^ 53) + 1 / 2 ^ 100"
    unfolding t_def by (rule fl_error_coarse)
  have ep: "\<bar>p - t * r\<bar> \<le> \<bar>t * r\<bar> * (1 / 2 ^ 53) + 1 / 2 ^ 100"
    unfolding p_def by (rule fl_error_coarse)
  have es: "\<bar>res - (lo + p)\<bar> \<le> \<bar>lo + p\<bar> * (1 / 2 ^ 53) + 1 / 2 ^ 100"
    unfolding res_def by (rule fl_error_coarse)
  have close: "\<bar>res - v\<bar> \<le> 1 / 10 ^ 9"
    using assms(6,7,8,9) r0 _ _ _ _ ea er et ep es by (rule round_trip_error) simp_all
  have D: "\<bar>v - lo\<bar> \<le> 2000000" and R: "\<bar>hi - lo\<bar> \<le> 2000000"
    using assms(5-9) by linarith+
  have q: "\<bar>a / r\<bar> \<le> 8"
  proof -
    have "\<bar>a / r\<bar> = \<bar>a\<bar> / r" using r0 by (simp add: abs_divide)
    also have "\<dots> \<le> 8" using ar r0 by (simp add: field_simps)
    finally show ?thesis .
  qed
  have rle: "\<bar>r\<bar> \<le> 2000001"
    unfolding r_def using R by (intro fl_abs_le [of _ 2000000, simplified]) simp_all
  have tle: "\<bar>t\<bar> \<le> 9"
    unfolding t_def using q by (intro fl_abs_le [of _ 8, simplified]) simp_all
  have trle: "\<bar>t * r\<bar> \<le> 18000009"
  proof -
    have "\<bar>t\<bar> * \<bar>r\<bar> \<le> 9 * 2000001" using tle rle by (intro mult_mono) simp_all
    then show ?thesis by (simp add: abs_mult)
  qed
  have ple: "\<bar>p\<bar> \<le> 18000010"
    unfolding p_def using trle by (intro fl_abs_le [of _ 18000009, simplified]) simp_all
  have n1: "to_num (v - lo) = Fin a" unfolding a_def using D by (intro to_num_Fin) simp
  have n2: "to_num (hi - lo) = Fin r" unfolding r_def using R by (intro to_num_Fin) simp
  have n3: "to_num (a / r) = Fin t" unfolding t_def using q by (intro to_num_Fin) simp
  have n4: "to_num (t * r) = Fin p" unfolding p_def using trle by (intro to_num_Fin) simp
  have n5: "to_num (lo + p) = Fin res"
    unfolding res_def using ple assms(5-9) by (intro to_num_Fin) simp
  have rng: "range_n ob = Fin r"
    using assms(1,2) n2 by (simp add: range_n_def sub_n_def)
  have norm: "RangeInputWidget_normalize (Some ob) (Fin v) = Inr (Fin t)"
    using assms(1) rng n1 n3 r0 by (simp add: RangeInputWidget_normalize_def sub_n_def)
  have denorm: "RangeInputWidget_denormalize (Some ob) (Fin t) = Inr (Fin res)"
    using assms(1) rng n4 n5 by (simp add: RangeInputWidget_denormalize_def)
  show ?thesis using norm denorm close by blast
qed

theorem denormalize_normalize_close_witness:
  "\<exists>n v'. RangeInputWidget_normalize
            (Some (no_options\<lparr>minValue := Some 100, maxValue := Some 10000\<rparr>)) (Fin 2575) = Inr n
         \<and> RangeInputWidget_denormalize
             (Some (no_options\<lparr>minValue := Some 100, maxValue := Some 10000\<rparr>)) n = Inr (Fin v')
         \<and> \<bar>v' - 2575\<bar> \<le> 1 / 10 ^ 9"
proof -
  have d: "fl 100 = 100" "fl 10000 = 10000" by code_simp+
  show ?thesis
    using denormalize_normalize_close
      [of "no_options\<lparr>minValue := Some 100, maxValue := Some 10000\<rparr>" 100 10000 2575] d
    by simp
qed

text \<open>
  C5 as stated fails on a wide range. On \<open>[-10^8, 10^8]\<close> the double nearest to \<open>0.1\<close>
  comes back as \<open>6710885 / 67108864\<close>, about \<open>2.09 * 10^-8\<close> away: the subtraction
  \<open>v - minValue\<close> rounds to a multiple of \<open>2 powi (-26)\<close>. (And the round trip is not exact
  on a small range either: on \<open>[0, 25]\<close> the value 7 comes back as the next double above 7.)
\<close>

theorem denormalize_normalize_wide_range:
  "fl (3602879701896397 / 36028797018963968) = 3602879701896397 / 36028797018963968
   \<and> RangeInputWidget_normalize
       (Some (no_options\<lparr>minValue := Some (- 100000000), maxValue := Some 100000000\<rparr>))
       (Fin (3602879701896397 / 36028797018963968))
     = Inr (Fin (4503599631874095 / 9007199254740992))
   \<and> RangeInputWidget_denormalize
       (Some (no_options\<lparr>minValue := Some (- 100000000), maxValue := Some 100000000\<rparr>))
       (Fin (4503599631874095 / 9007199254740992))
     = Inr (Fin (6710885 / 67108864))
   \<and> 1 / 10 ^ 9 < \<bar>6710885 / 67108864 - 3602879701896397 / 36028797018963968 :: real\<bar>
   \<and> RangeInputWidget_normalize
       (Some (no_options\<lparr>minValue := Some 0, maxValue := Some 25\<rparr>)) (Fin 7)
     = Inr (Fin (1261007895663739 / 4503599627370496))
   \<and> RangeInputWidget_denormalize
       (Some (no_options\<lparr>minValue := Some 0, maxValue := Some 25\<rparr>))
       (Fin (1261007895663739 / 4503599627370496))
     = Inr (Fin (7881299347898369 / 1125899906842624))
   \<and> (7 :: real) < 7881299347898369 / 1125899906842624"
  by code_simp

subsection \<open>Registration\<close>

text \<open>
  C9, as the code has it. Registering a class raises the TypeError exactly when the
  getter finds no tag for it: neither the class nor any class it extends, up to
  \<^verbatim>\<open>Widget\<close>, overrides \<^verbatim>\<open>_unqualifiedNodeName\<close>. The class registers without error
  exactly when a tag \<open>t\<close> is found, \<open>a-t\<close> is a valid custom element name and neither that
  name nor the class is in the registry yet; the registry then holds the class under
  \<open>a-t\<close>. In the remaining cases \<^verbatim>\<open>customElements.define\<close> throws a DOMException.
\<close>

theorem staticInit_outcome:
  "((\<exists>m. Widget_staticInit (customElements_define valid) c reg = Inl (TypeError m))
      = (tag_of c = None))
   \<and> ((Widget_staticInit (customElements_define valid) c reg = Inr reg')
      = (\<exists>t. tag_of c = Some t \<and> valid (''a-'' @ t) \<and> ''a-'' @ t \<notin> fst ` set reg
             \<and> c \<notin> snd ` set reg \<and> reg' = reg @ [(''a-'' @ t, c)]))
   \<and> ((\<exists>m. Widget_staticInit (customElements_define valid) c reg = Inl (DOMException m))
      = (\<exists>t. tag_of c = Some t
             \<and> \<not> (valid (''a-'' @ t) \<and> ''a-'' @ t \<notin> fst ` set reg \<and> c \<notin> snd ` set reg)))"
  by (cases "tag_of c")
    (auto simp: Widget_staticInit_def Widget_unqualifiedNodeName_def customElements_define_def)

text \<open>
  The two registrations of the file, in its order, and a class without a tag anywhere
  in its chain.
\<close>

theorem staticInit_outcome_witness:
  "Widget_staticInit (customElements_define plain_name) (decl_of ResizeHandle) []
     = Inr [(''a-resize-handle'', decl_of ResizeHandle)]
   \<and> Widget_staticInit (customElements_define plain_name) (decl_of Knob)
       [(''a-resize-handle'', decl_of ResizeHandle)]
     = Inr [(''a-resize-handle'', decl_of ResizeHandle), (''a-knob'', decl_of Knob)]
   \<and> (\<exists>m. Widget_staticInit (customElements_define plain_name)
             (Sub ''Slider'' None (decl_of RangeInputWidget)) [] = Inl (TypeError m))"
proof -
  have t: "tag_of (decl_of ResizeHandle) = Some ''resize-handle''"
    "tag_of (decl_of Knob) = Some ''knob''"
    "tag_of (Sub ''Slider'' None (decl_of RangeInputWidget)) = None"
    by (simp_all add: decl_of_def)
  have v: "plain_name ''a-resize-handle''" "plain_name ''a-knob''"
    by (simp_all add: plain_name_def)
  have d: "decl_of Knob \<noteq> decl_of ResizeHandle" by (simp add: decl_of_def)
  show ?thesis
    using staticInit_outcome [of plain_name "decl_of ResizeHandle" "[]"
        "[(''a-resize-handle'', decl_of ResizeHandle)]"]
      staticInit_outcome [of plain_name "decl_of Knob"
        "[(''a-resize-handle'', decl_of ResizeHandle)]"
        "[(''a-resize-handle'', decl_of ResizeHandle), (''a-knob'', decl_of Knob)]"]
      staticInit_outcome [of plain_name "Sub ''Slider'' None (decl_of RangeInputWidget)" "[]"]
      t v d
    by simp
qed

text \<open>
  C9 as stated fails in both halves. A subclass of \<^verbatim>\<open>Knob\<close> that does not override the
  tag gets no TypeError: the getter finds \<^verbatim>\<open>Knob\<close>'s tag, so on an empty registry the
  class registers as \<^verbatim>\<open>a-knob\<close>, and once \<^verbatim>\<open>Knob\<close> is registered the failure is the
  registry's, a DOMException. And a class that does provide the tag does not always
  register: not twice, and not with a tag that makes no valid name (\<^verbatim>\<open>a-Dial\<close>).
\<close>

theorem staticInit_inherited_tag:
  "\<not> overrides (Sub ''BigKnob'' None (decl_of Knob))
   \<and> Widget_staticInit (customElements_define plain_name) (Sub ''BigKnob'' None (decl_of Knob)) []
       = Inr [(''a-knob'', Sub ''BigKnob'' None (decl_of Knob))]
   \<and> Widget_staticInit (customElements_define plain_name) (Sub ''BigKnob'' None (decl_of Knob))
         [(''a-knob'', decl_of Knob)]
       = Inl (DOMException ''NotSupportedError'')
   \<and> overrides (decl_of Knob)
   \<and> Widget_staticInit (customElements_define plain_name) (decl_of Knob)
         [(''a-knob'', decl_of Knob)]
       = Inl (DOMException ''NotSupportedError'')
   \<and> overrides (Sub ''Dial'' (Some ''Dial'') Base)
   \<and> Widget_staticInit (customElements_define plain_name) (Sub ''Dial'' (Some ''Dial'') Base) []
       = Inl (DOMException ''SyntaxError'')"
  by (simp add: decl_of_def Widget_staticInit_def Widget_unqualifiedNodeName_def
      customElements_define_def plain_name_def)

subsection \<open>One-time initialization\<close>

lemma connects_initialized: "instanceInitialized w \<Longrightarrow> connects es w = Ok w"
  by (induction es arbitrary: w) (simp_all add: connectedCallback_def)

text \<open>
  The hook completes on every widget that has its option bag, and on the three classes
  that read no option.
\<close>

lemma instanceInit_completes:
  assumes "opt w \<noteq> None \<or> cls w \<in> {Widget, TouchAndMouseControllableWidget, InputWidget}"
  shows "\<exists>w1. instanceInit e w = Ok w1"
  using assms by (cases "cls w") (auto simp: init_defs Let_def)

text \<open>
  When the hook of a widget that is not yet initialized completes
  (\<open>instanceInit e w = Ok w1\<close>), the first connection runs it and sets the flag, and
  however often the widget is connected again (\<open>es\<close>), its state stays the one the single
  run of the hook produced.
\<close>

lemma init_hook_runs_once:
  assumes "\<not> instanceInitialized w" and "instanceInit e w = Ok w1"
  shows "connectedCallback e w = Ok (w1\<lparr>instanceInitialized := True\<rparr>)
         \<and> connects (e # es) w = Ok (w1\<lparr>instanceInitialized := True\<rparr>)"
  using assms by (simp add: connectedCallback_def connects_initialized)

text \<open>
  At the low-pass knob, connected three times: one label child and one set of listeners,
  the traces of one run of the hook.
\<close>

lemma init_hook_runs_once_lpfreq:
  "\<not> instanceInitialized lpfreq_knob
   \<and> instanceInit example_env lpfreq_knob = Ok (state_of (instanceInit example_env lpfreq_knob))
   \<and> connects [example_env, retina_env, example_env] lpfreq_knob
       = Ok ((state_of (instanceInit example_env lpfreq_knob))\<lparr>instanceInitialized := True\<rparr>)
   \<and> children (state_of (connects [example_env, retina_env, example_env] lpfreq_knob)) = [None]
   \<and> listeners (state_of (connects [example_env, retina_env, example_env] lpfreq_knob))
       = [''touchstart'', ''touchmove'', ''touchend'', ''mousedown'']"
proof -
  have a: "\<not> instanceInitialized lpfreq_knob"
    by (simp add: lpfreq_knob_def create_defs)
  have b: "instanceInit example_env lpfreq_knob
             = Ok (state_of (instanceInit example_env lpfreq_knob))"
    by (simp add: lpfreq_knob_def create_defs init_defs)
  have c: "children (state_of (instanceInit example_env lpfreq_knob)) = [None]"
    "listeners (state_of (instanceInit example_env lpfreq_knob))
       = [''touchstart'', ''touchmove'', ''touchend'', ''mousedown'']"
    by (simp_all add: lpfreq_knob_def create_defs init_defs)
  have r: "connects [example_env, retina_env, example_env] lpfreq_knob
             = Ok ((state_of (instanceInit example_env lpfreq_knob))\<lparr>instanceInitialized := True\<rparr>)"
    using init_hook_runs_once [OF a b, of "[retina_env, example_env]"] by (rule conjunct2)
  show ?thesis unfolding r using a b c by simp
qed

text \<open>
  C8 fails on the code. Take a knob that was created and connected with no option ever
  read or written. \<^verbatim>\<open>RangeInputWidget._instanceInit\<close> reads the field \<^verbatim>\<open>this._opt\<close>
  directly, not through the getter \<^verbatim>\<open>opt\<close> that creates the bag, so the hook throws a
  TypeError at \<^verbatim>\<open>this._opt.minValue\<close>, after the listeners were added and the value was
  set. \<^verbatim>\<open>connectedCallback\<close> sets the flag only after the hook has returned, so the
  flag stays unset and the second connection runs the hook again: the listeners are
  there twice.
\<close>

theorem failing_init_runs_again:
  "connectedCallback example_env (createElement Knob)
     = Stop (TypeError ''_opt is undefined'')
         ((createElement Knob)\<lparr>
            listeners := [''touchstart'', ''touchmove'', ''touchend'', ''mousedown''],
            val := Num 0\<rparr>)
   \<and> connects [example_env, example_env] (createElement Knob)
       = Ok ((createElement Knob)\<lparr>
            listeners := [''touchstart'', ''touchmove'', ''touchend'', ''mousedown'',
                          ''touchstart'', ''touchmove'', ''touchend'', ''mousedown''],
            val := Num 0\<rparr>)
   \<and> \<not> instanceInitialized
         (state_of (connects [example_env, example_env] (createElement Knob)))"
  by (simp add: init_defs createElement_def)

subsection \<open>Defaults of the range\<close>

text \<open>
  What \<^verbatim>\<open>RangeInputWidget._instanceInit\<close> leaves in the bag: an explicit value other than
  zero is kept, and an unset key or an explicit zero gets the default.
\<close>

lemma RangeInputWidget_instanceInit_options:
  assumes "opt w = Some ob"
  shows "\<exists>w'. RangeInputWidget_instanceInit w = Ok w'
           \<and> opt w' = Some (ob\<lparr>minValue := Some (or_default (minValue ob) 0),
                                  maxValue := Some (or_default (maxValue ob) 1)\<rparr>)"
  using assms
  by (simp add: RangeInputWidget_instanceInit_def InputWidget_instanceInit_def
      TouchAndMouseControllableWidget_instanceInit_def Widget_instanceInit_def)

text \<open>
  C3. An explicit \<open>maxValue = 0\<close> is replaced: the knob with the options
  \<open>minValue = -1\<close>, \<open>maxValue = 0\<close> comes out of its initialization with the range
  -1 to 1.
\<close>

theorem explicit_zero_maxValue_replaced:
  "map_option maxValue (opt unit_below_zero_knob) = Some (Some 0)
   \<and> map_option minValue (opt (state_of (connectedCallback e unit_below_zero_knob)))
       = Some (Some (- 1))
   \<and> map_option maxValue (opt (state_of (connectedCallback e unit_below_zero_knob)))
       = Some (Some 1)"
  by (simp add: unit_below_zero_knob_def create_defs init_defs)

subsection \<open>The initial value\<close>

text \<open>
  C10. After the one-time initialization of an input widget, the value getter returns 0,
  whatever the configured range. In particular, for a range widget whose \<open>minValue\<close>
  is some \<open>lo > 0\<close>, initialization completes with \<open>minValue\<close> still \<open>lo\<close> and the value
  0 below it: clamping 0 would give a number of at least \<open>lo\<close>, and initialization does
  not clamp.
\<close>

theorem initial_value_zero:
  assumes "is_InputWidget (cls w)" and "\<not> instanceInitialized w"
  shows "InputWidget_value (state_of (connectedCallback e w)) = Num 0
         \<and> (\<forall>ob lo. (cls w = Knob \<or> cls w = RangeInputWidget) \<and> opt w = Some ob
                \<and> minValue ob = Some lo \<and> 0 < lo \<longrightarrow>
              (\<exists>w' ob' c. connectedCallback e w = Ok w' \<and> InputWidget_value w' = Num 0
                 \<and> opt w' = Some ob' \<and> minValue ob' = Some lo
                 \<and> RangeInputWidget_clamp (opt w') 0 = Inr c \<and> lo \<le> c))"
  using assms
  by (cases "cls w") (auto simp: InputWidget_value_def init_defs range_defs Let_def
      split: option.splits)

theorem initial_value_zero_witness:
  "is_InputWidget (cls lpfreq_knob) \<and> \<not> instanceInitialized lpfreq_knob
   \<and> InputWidget_value (state_of (connectedCallback example_env lpfreq_knob)) = Num 0
   \<and> map_option minValue (opt (state_of (connectedCallback example_env lpfreq_knob)))
       = Some (Some 100)
   \<and> map_option maxValue (opt (state_of (connectedCallback example_env lpfreq_knob)))
       = Some (Some 10000)
   \<and> RangeInputWidget_clamp (opt (state_of (connectedCallback example_env lpfreq_knob))) 0
       = Inr 100"
proof -
  have a: "is_InputWidget (cls lpfreq_knob)" "\<not> instanceInitialized lpfreq_knob"
    by (simp_all add: lpfreq_knob_def create_defs)
  have b: "map_option minValue (opt (state_of (connectedCallback example_env lpfreq_knob)))
             = Some (Some 100)"
    "map_option maxValue (opt (state_of (connectedCallback example_env lpfreq_knob)))
             = Some (Some 10000)"
    "RangeInputWidget_clamp (opt (state_of (connectedCallback example_env lpfreq_knob))) 0
             = Inr 100"
    by (simp_all add: lpfreq_knob_def create_defs init_defs range_defs)
  from initial_value_zero [OF a, of example_env] a b show ?thesis by simp
qed

subsection \<open>Writing the value\<close>

text \<open>A knob that has completed its initialization has its label child.\<close>

lemma Knob_initialized_has_label:
  assumes "cls w = Knob" and "\<not> instanceInitialized w" and "connectedCallback e w = Ok w'"
  shows "children w' \<noteq> [] \<and> instanceInitialized w'"
  using assms by (auto simp: init_defs split: option.splits)

text \<open>
  C4, as the code has it. Writing \<open>v\<close> through the value setter when \<open>v\<close> equals the
  stored value (under \<^verbatim>\<open>==\<close>) changes nothing and dispatches nothing. Writing a
  different \<open>v\<close> stores it and dispatches exactly one \<^verbatim>\<open>input\<close> event carrying \<open>v\<close>,
  provided the value-changed hook completes: always for an input widget that is not a
  knob, and for a knob once it has its label child (that is, once initialized).
\<close>

theorem set_value_notifies_once:
  "(loose_eq (val w) v \<longrightarrow> InputWidget_set_value v w = Ok w)
   \<and> (\<not> loose_eq (val w) v \<and> (cls w = Knob \<longrightarrow> children w \<noteq> []) \<longrightarrow>
        (\<exists>w'. InputWidget_set_value v w = Ok w' \<and> InputWidget_value w' = v
             \<and> dispatched w' = dispatched w @ [InputEvent v]))"
  by (cases "cls w"; cases "children w")
     (auto simp: InputWidget_value_def value_defs)

lemma example_knob_fields:
  "cls example_knob = Knob \<and> val example_knob = Num 50
   \<and> opt example_knob = Some (no_options\<lparr>minValue := Some 0, maxValue := Some 100\<rparr>)
   \<and> children example_knob = [Some 50]
   \<and> dispatched example_knob = [InputEvent (Num 50)]"
  by (simp add: example_knob_def init_defs create_defs value_defs)

theorem set_value_notifies_once_witness:
  "loose_eq (val example_knob) (Num 50)
   \<and> InputWidget_set_value (Num 50) example_knob = Ok example_knob
   \<and> \<not> loose_eq (val example_knob) (Num 75) \<and> children example_knob \<noteq> []
   \<and> (\<exists>w'. InputWidget_set_value (Num 75) example_knob = Ok w'
          \<and> InputWidget_value w' = Num 75
          \<and> dispatched w' = [InputEvent (Num 50), InputEvent (Num 75)])"
  using set_value_notifies_once [of example_knob "Num 50"]
    set_value_notifies_once [of example_knob "Num 75"] example_knob_fields
  by simp

text \<open>
  C4 as stated fails: a knob that is not yet initialized has no label child, so the
  hook throws after the new value was stored and before the event is made. The write of
  a different value dispatches nothing.
\<close>

theorem set_value_uninitialized_knob:
  "\<not> loose_eq (val (createElement Knob)) (Num (1 / 2))
   \<and> InputWidget_set_value (Num (1 / 2)) (createElement Knob)
       = Stop (TypeError ''children[0] is undefined'')
           ((createElement Knob)\<lparr>val := Num (1 / 2)\<rparr>)
   \<and> dispatched (state_of (InputWidget_set_value (Num (1 / 2)) (createElement Knob))) = []"
  by (simp add: value_defs createElement_def)


subsection \<open>The knob's gesture\<close>

lemma inputs_of_append: "inputs_of (xs @ ys) = inputs_of xs @ inputs_of ys"
  by (induction xs rule: inputs_of.induct) simp_all

text \<open>
  C7. For every knob, in any state: a start followed by five continue steps that each
  move by \<open>(+1, +1)\<close> completes, leaves the value unchanged and dispatches no \<^verbatim>\<open>input\<close>
  event. The accumulator \<open>axis\<close> receives \<open>\<bar>1\<bar> - \<bar>1\<bar> = 0\<close> at each step, stays at 0, below
  the threshold 3, and the axis never locks.
\<close>

theorem knob_diagonal_jitter_keeps_value:
  assumes "cls w = Knob"
  shows "\<exists>w'. run [(e0, InputStart d0 x y),
                   (e1, InputContinue d1 (x + 1) (y + 1)),
                   (e2, InputContinue d2 (x + 2) (y + 2)),
                   (e3, InputContinue d3 (x + 3) (y + 3)),
                   (e4, InputContinue d4 (x + 4) (y + 4)),
                   (e5, InputContinue d5 (x + 5) (y + 5))] w = Ok w'
           \<and> InputWidget_value w' = InputWidget_value w \<and> axis w' = 0
           \<and> inputs_of (dispatched w') = inputs_of (dispatched w)"
  using assms
  by (simp add: gesture_defs dispatchEvent_def Let_def inputs_of_append InputWidget_value_def)

theorem knob_diagonal_jitter_keeps_value_witness:
  "cls example_knob = Knob
   \<and> (\<exists>w'. run [(example_env, InputStart example_device 30 40),
                 (example_env, InputContinue example_device (30 + 1) (40 + 1)),
                 (example_env, InputContinue example_device (30 + 2) (40 + 2)),
                 (example_env, InputContinue example_device (30 + 3) (40 + 3)),
                 (example_env, InputContinue example_device (30 + 4) (40 + 4)),
                 (example_env, InputContinue example_device (30 + 5) (40 + 5))] example_knob
               = Ok w'
          \<and> InputWidget_value w' = Num 50 \<and> axis w' = 0
          \<and> inputs_of (dispatched w') = [Num 50])"
  using knob_diagonal_jitter_keeps_value
      [of example_knob example_env example_device 30 40 example_env example_device
          example_env example_device example_env example_device example_env example_device
          example_env example_device]
    example_knob_fields
  by (simp add: InputWidget_value_def)

text \<open>
  C1, as the code has it. For a knob with \<open>minValue = 0\<close>, \<open>maxValue = 100\<close>, width 200
  and value 50, a gesture of a start, two continue steps of \<open>(+5, 0)\<close> each, and an end
  leaves the value at \<open>52.5 = 50 + 100 * 5 / 200\<close>. The first continue step only feeds
  the accumulator (\<open>axis\<close> becomes 5, which locks the horizontal axis) and returns; the
  drag distance counts the second step alone.
\<close>

theorem knob_horizontal_drag_value:
  assumes "cls w = Knob" and "opt w = Some ob" and "minValue ob = Some 0"
    and "maxValue ob = Some 100" and "val w = Num 50" and "children w \<noteq> []"
    and "clientWidth e2 = 200"
  shows "\<exists>w'. run [(e0, InputStart d0 x y),
                   (e1, InputContinue d1 (x + 5) y),
                   (e2, InputContinue d2 (x + 10) y),
                   (e3, InputEnd d3)] w = Ok w'
           \<and> InputWidget_value w' = Num (105 / 2) \<and> axis w' = 5 \<and> drag_d w' = 5
           \<and> inputs_of (dispatched w') = inputs_of (dispatched w) @ [Num (105 / 2)]"
  using assms
  by (cases "children w")
     (simp_all add: gesture_defs value_defs range_defs Let_def inputs_of_append
        InputWidget_value_def)

theorem knob_horizontal_drag_value_witness:
  "cls example_knob = Knob
   \<and> opt example_knob = Some (no_options\<lparr>minValue := Some 0, maxValue := Some 100\<rparr>)
   \<and> val example_knob = Num 50 \<and> children example_knob \<noteq> []
   \<and> clientWidth example_env = 200
   \<and> (\<exists>w'. run [(example_env, InputStart example_device 10 10),
                 (example_env, InputContinue example_device (10 + 5) 10),
                 (example_env, InputContinue example_device (10 + 10) 10),
                 (example_env, InputEnd example_device)] example_knob = Ok w'
          \<and> InputWidget_value w' = Num (105 / 2) \<and> axis w' = 5 \<and> drag_d w' = 5
          \<and> inputs_of (dispatched w') = [Num 50, Num (105 / 2)])"
proof -
  have e: "clientWidth example_env = 200" by (simp add: example_env_def)
  have k: "cls example_knob = Knob"
    "opt example_knob = Some (no_options\<lparr>minValue := Some 0, maxValue := Some 100\<rparr>)"
    "val example_knob = Num 50" "children example_knob \<noteq> []"
    "dispatched example_knob = [InputEvent (Num 50)]"
    using example_knob_fields by simp_all
  have o: "minValue (no_options\<lparr>minValue := Some 0, maxValue := Some 100\<rparr>) = Some 0"
    "maxValue (no_options\<lparr>minValue := Some 0, maxValue := Some 100\<rparr>) = Some 100"
    by simp_all
  from knob_horizontal_drag_value [OF k(1) k(2) o k(3) k(4) e,
      of example_env example_device 10 10 example_env example_device example_device
         example_env example_device]
  show ?thesis using e k by simp
qed

text \<open>
  C1 as stated fails: at the example knob (range 0 to 100, value 50, width 200) the
  gesture ends with the value 52.5, not 55.
\<close>

theorem knob_horizontal_drag_not_55:
  "InputWidget_value
     (state_of (run [(example_env, InputStart example_device 10 10),
                     (example_env, InputContinue example_device 15 10),
                     (example_env, InputContinue example_device 20 10),
                     (example_env, InputEnd example_device)] example_knob))
     = Num (105 / 2)
   \<and> InputWidget_value
     (state_of (run [(example_env, InputStart example_device 10 10),
                     (example_env, InputContinue example_device 15 10),
                     (example_env, InputContinue example_device 20 10),
                     (example_env, InputEnd example_device)] example_knob))
     \<noteq> Num 55"
  by (simp add: example_knob_def example_env_def init_defs create_defs gesture_defs
      value_defs range_defs Let_def InputWidget_value_def)

subsection \<open>The resize handle's output\<close>









text \<open>
  \<^verbatim>\<open>ResizeHandle._instanceInit\<close> makes such a handle from four explicit bounds other
  than zero, with the ratio lock switched off.
\<close>

lemma ResizeHandle_init_bounded:
  assumes "cls w = ResizeHandle" and "\<not> instanceInitialized w" and "opt w = Some ob"
    and "minWidth ob = Some (Fin a)" and "maxWidth ob = Some (Fin b)"
    and "minHeight ob = Some (Fin c)" and "maxHeight ob = Some (Fin d)"
    and "maxScale ob = None" and "keepAspectRatio ob = Some False"
    and "a \<noteq> 0" and "b \<noteq> 0" and "c \<noteq> 0" and "d \<noteq> 0" and "a \<le> b" and "c \<le> d"
  shows "\<exists>w'. connectedCallback e w = Ok w' \<and> bounded_handle False a b c d w'"
  using assms by (simp add: init_defs bounded_handle_def Let_def)




end
